theory Spec2Isabelle
  imports Complex_Main
begin

section \<open>Scalars\<close>

text \<open>
  The logarithm maps of \<^verbatim>\<open>src/spatial/log.hxx\<close> are templates over a scalar type.
  The scalar is modelled as a real number extended by one value \<open>NaN\<close> that stands for
  every result that is not a finite number: a division by zero, the arc cosine of an
  argument outside \<open>[-1, 1]\<close>, the square root of a negative number. Arithmetic on
  finite values is exact (rounding and overflow are not modelled), an operation on
  \<open>NaN\<close> gives \<open>NaN\<close>, and every ordered comparison with \<open>NaN\<close> is false, as for an
  IEEE not-a-number.
\<close>

datatype scalar = Fin real | NaN

instantiation scalar :: "{plus, minus, uminus, times, inverse}"
begin

fun plus_scalar :: "scalar \<Rightarrow> scalar \<Rightarrow> scalar" where
  "plus_scalar (Fin a) (Fin b) = Fin (a + b)"
| "plus_scalar _ _ = NaN"

fun minus_scalar :: "scalar \<Rightarrow> scalar \<Rightarrow> scalar" where
  "minus_scalar (Fin a) (Fin b) = Fin (a - b)"
| "minus_scalar _ _ = NaN"

fun uminus_scalar :: "scalar \<Rightarrow> scalar" where
  "uminus_scalar (Fin a) = Fin (- a)"
| "uminus_scalar NaN = NaN"

fun times_scalar :: "scalar \<Rightarrow> scalar \<Rightarrow> scalar" where
  "times_scalar (Fin a) (Fin b) = Fin (a * b)"
| "times_scalar _ _ = NaN"

fun divide_scalar :: "scalar \<Rightarrow> scalar \<Rightarrow> scalar" where
  "divide_scalar (Fin a) (Fin b) = (if b = 0 then NaN else Fin (a / b))"
| "divide_scalar _ _ = NaN"

fun inverse_scalar :: "scalar \<Rightarrow> scalar" where
  "inverse_scalar (Fin a) = (if a = 0 then NaN else Fin (inverse a))"
| "inverse_scalar NaN = NaN"

instance ..

end

fun ssin :: "scalar \<Rightarrow> scalar" where
  "ssin (Fin a) = Fin (sin a)"
| "ssin NaN = NaN"

fun scos :: "scalar \<Rightarrow> scalar" where
  "scos (Fin a) = Fin (cos a)"
| "scos NaN = NaN"

fun sacos :: "scalar \<Rightarrow> scalar" where
  \<comment> \<open>\<^verbatim>\<open>math::acos\<close>: not a number outside \<open>[-1, 1]\<close>\<close>
  "sacos (Fin a) = (if - 1 \<le> a \<and> a \<le> 1 then Fin (arccos a) else NaN)"
| "sacos NaN = NaN"

fun ssqrt :: "scalar \<Rightarrow> scalar" where
  \<comment> \<open>\<^verbatim>\<open>sqrt\<close>: not a number below zero\<close>
  "ssqrt (Fin a) = (if 0 \<le> a then Fin (sqrt a) else NaN)"
| "ssqrt NaN = NaN"

subsection \<open>The numeric selection layer\<close>

datatype ComparisonOperators = LT | LE | EQ | GE | GT

fun compare_op :: "ComparisonOperators \<Rightarrow> scalar \<Rightarrow> scalar \<Rightarrow> bool" where
  "compare_op LT (Fin a) (Fin b) = (a < b)"
| "compare_op LE (Fin a) (Fin b) = (a \<le> b)"
| "compare_op EQ (Fin a) (Fin b) = (a = b)"
| "compare_op GE (Fin a) (Fin b) = (a \<ge> b)"
| "compare_op GT (Fin a) (Fin b) = (a > b)"
| "compare_op _ _ _ = False"

definition if_then_else ::
  "ComparisonOperators \<Rightarrow> scalar \<Rightarrow> scalar \<Rightarrow> scalar \<Rightarrow> scalar \<Rightarrow> scalar" where
  \<comment> \<open>Modelled from the spec: \<^verbatim>\<open>internal::if_then_else\<close> is not among the sources. The
      spec's conditional-select primitive: both branch values are evaluated by the
      caller, one is returned according to the comparison of \<open>lhs\<close> with \<open>rhs\<close>.\<close>
  "if_then_else cmp lhs rhs then_value else_value =
     (if compare_op cmp lhs rhs then then_value else else_value)"

definition smin :: "scalar \<Rightarrow> scalar \<Rightarrow> scalar" where
  \<comment> \<open>Modelled from the spec: \<^verbatim>\<open>math::min\<close> is not among the sources; the smaller of
      the two, the first one when the comparison is false.\<close>
  "smin a b = (if compare_op LT b a then b else a)"

definition smax :: "scalar \<Rightarrow> scalar \<Rightarrow> scalar" where
  \<comment> \<open>Modelled from the spec: \<^verbatim>\<open>math::max\<close> is not among the sources; the larger of
      the two, the first one when the comparison is false.\<close>
  "smax a b = (if compare_op LT a b then b else a)"

section \<open>Vectors and matrices\<close>

text \<open>
  Fixed-size Eigen vectors and matrices are functions of their indices, read as
  \<open>v i\<close> and \<open>M i j\<close> with indices from 0; only the indices below the size are meaningful.
  The operations are those of Eigen that the sources use, written for any entry type so
  that the same operations state the results over the reals.
\<close>

type_synonym vec3 = "nat \<Rightarrow> scalar"
type_synonym mat3 = "nat \<Rightarrow> nat \<Rightarrow> scalar"
type_synonym vec6 = "nat \<Rightarrow> scalar"
type_synonym mat6 = "nat \<Rightarrow> nat \<Rightarrow> scalar"
type_synonym Matrix6x = "nat \<Rightarrow> nat \<Rightarrow> scalar"

definition mk3 :: "'a \<Rightarrow> 'a \<Rightarrow> 'a \<Rightarrow> nat \<Rightarrow> 'a" where
  "mk3 a b c = (\<lambda>i. if i = 0 then a else if i = 1 then b else c)"

definition trace3 :: "(nat \<Rightarrow> nat \<Rightarrow> 'a::plus) \<Rightarrow> 'a" where
  "trace3 R = R 0 0 + R 1 1 + R 2 2"

definition scale3 :: "'a::times \<Rightarrow> (nat \<Rightarrow> 'a) \<Rightarrow> nat \<Rightarrow> 'a" where
  "scale3 a v = (\<lambda>i. a * v i)"

definition vadd3 :: "(nat \<Rightarrow> 'a::plus) \<Rightarrow> (nat \<Rightarrow> 'a) \<Rightarrow> nat \<Rightarrow> 'a" where
  "vadd3 u v = (\<lambda>i. u i + v i)"

definition vsub3 :: "(nat \<Rightarrow> 'a::minus) \<Rightarrow> (nat \<Rightarrow> 'a) \<Rightarrow> nat \<Rightarrow> 'a" where
  "vsub3 u v = (\<lambda>i. u i - v i)"

definition dot3 :: "(nat \<Rightarrow> 'a::{plus,times}) \<Rightarrow> (nat \<Rightarrow> 'a) \<Rightarrow> 'a" where
  "dot3 u v = u 0 * v 0 + u 1 * v 1 + u 2 * v 2"

definition cross3 :: "(nat \<Rightarrow> 'a::{minus,times}) \<Rightarrow> (nat \<Rightarrow> 'a) \<Rightarrow> nat \<Rightarrow> 'a" where
  "cross3 u v = mk3 (u 1 * v 2 - u 2 * v 1) (u 2 * v 0 - u 0 * v 2) (u 0 * v 1 - u 1 * v 0)"

definition outer3 :: "(nat \<Rightarrow> 'a::times) \<Rightarrow> (nat \<Rightarrow> 'a) \<Rightarrow> nat \<Rightarrow> nat \<Rightarrow> 'a" where
  \<comment> \<open>\<^verbatim>\<open>u * v.transpose()\<close>\<close>
  "outer3 u v = (\<lambda>i j. u i * v j)"

definition madd3 ::
  "(nat \<Rightarrow> nat \<Rightarrow> 'a::plus) \<Rightarrow> (nat \<Rightarrow> nat \<Rightarrow> 'a) \<Rightarrow> nat \<Rightarrow> nat \<Rightarrow> 'a" where
  "madd3 A B = (\<lambda>i j. A i j + B i j)"

definition mmul3 ::
  "(nat \<Rightarrow> nat \<Rightarrow> 'a::{plus,times}) \<Rightarrow> (nat \<Rightarrow> nat \<Rightarrow> 'a) \<Rightarrow> nat \<Rightarrow> nat \<Rightarrow> 'a" where
  "mmul3 A B = (\<lambda>i j. A i 0 * B 0 j + A i 1 * B 1 j + A i 2 * B 2 j)"

definition add_diag :: "'a::plus \<Rightarrow> (nat \<Rightarrow> nat \<Rightarrow> 'a) \<Rightarrow> nat \<Rightarrow> nat \<Rightarrow> 'a" where
  \<comment> \<open>\<^verbatim>\<open>M.diagonal().array() += d\<close>\<close>
  "add_diag d M = (\<lambda>i j. if i = j then M i j + d else M i j)"

definition addSkew ::
  "(nat \<Rightarrow> 'a::{plus,minus}) \<Rightarrow> (nat \<Rightarrow> nat \<Rightarrow> 'a) \<Rightarrow> nat \<Rightarrow> nat \<Rightarrow> 'a" where
  \<comment> \<open>Modelled from the spec: \<^verbatim>\<open>addSkew\<close> is not among the sources. It adds \<open>skew(v)\<close>,
      the skew-symmetric matrix of the cross product with \<open>v\<close>, to \<open>M\<close> in place: the
      six entries off the diagonal change, the diagonal does not.\<close>
  "addSkew v M =
     (\<lambda>i j. if i = 0 \<and> j = 1 then M 0 1 - v 2
            else if i = 0 \<and> j = 2 then M 0 2 + v 1
            else if i = 1 \<and> j = 0 then M 1 0 + v 2
            else if i = 1 \<and> j = 2 then M 1 2 - v 0
            else if i = 2 \<and> j = 0 then M 2 0 - v 1
            else if i = 2 \<and> j = 1 then M 2 1 + v 0
            else M i j)"

text \<open>
  A 3x3 block of a larger matrix is a view: reading it reads the matrix, writing it
  writes the matrix. \<open>block33 r c M\<close> is the block whose top-left entry is \<open>M r c\<close>.
\<close>

definition block33 :: "nat \<Rightarrow> nat \<Rightarrow> (nat \<Rightarrow> nat \<Rightarrow> 'a) \<Rightarrow> nat \<Rightarrow> nat \<Rightarrow> 'a" where
  "block33 r c M = (\<lambda>i j. M (r + i) (c + j))"

definition set_block33 ::
  "nat \<Rightarrow> nat \<Rightarrow> (nat \<Rightarrow> nat \<Rightarrow> 'a) \<Rightarrow> (nat \<Rightarrow> nat \<Rightarrow> 'a) \<Rightarrow> nat \<Rightarrow> nat \<Rightarrow> 'a" where
  "set_block33 r c B M =
     (\<lambda>i j. if r \<le> i \<and> i < r + 3 \<and> c \<le> j \<and> j < c + 3 then B (i - r) (j - c) else M i j)"

record SE3 =
  rotation :: mat3
  translation :: vec3

record Motion =
  linear_part :: vec3
  angular_part :: vec3

section \<open>The rotation logarithm\<close>

text \<open>
  \<^verbatim>\<open>log3_impl::run\<close>. The parameter \<open>prec\<close> is the value of
  \<^verbatim>\<open>TaylorSeriesExpansion<Scalar>::precision<3>()\<close>, a constant of the scalar type whose
  definition is not among the sources. The result is \<open>None\<close> when the assertion on
  \<open>theta\<close> fails, and the pair of the angle and the rotation vector otherwise.
\<close>

definition log3_impl_run :: "scalar \<Rightarrow> mat3 \<Rightarrow> (scalar \<times> vec3) option" where
  "log3_impl_run prec R =
    (let PI_value = Fin pi;
         tr = trace3 R;
         theta = if_then_else GE tr (Fin 3)
                   (Fin 0)
                   (if_then_else LE tr (Fin (- 1))
                      PI_value
                      (sacos ((tr - Fin 1) / Fin 2)));
         tr = smax (smin tr (Fin 3)) (Fin (- 1))
     in if \<not> compare_op EQ theta theta then None
        else
          let PI_value_lower = PI_value - Fin (1 / 100);
              t = if_then_else GT theta prec (theta / ssin theta) (Fin 1) / Fin 2;
              cphi = - (tr - Fin 1) / Fin 2;
              beta = theta * theta / (Fin 1 + cphi);
              tmp = (\<lambda>i. (R i i + cphi) * beta);
              res0 = if_then_else GE theta PI_value_lower
                       (if_then_else GT (R 2 1) (R 1 2) (Fin 1) (Fin (- 1))
                        * if_then_else GT (tmp 0) (Fin 0) (ssqrt (tmp 0)) (Fin 0))
                       (t * (R 2 1 - R 1 2));
              res1 = if_then_else GE theta PI_value_lower
                       (if_then_else GT (R 0 2) (R 2 0) (Fin 1) (Fin (- 1))
                        * if_then_else GT (tmp 1) (Fin 0) (ssqrt (tmp 1)) (Fin 0))
                       (t * (R 0 2 - R 2 0));
              res2 = if_then_else GE theta PI_value_lower
                       (if_then_else GT (R 1 0) (R 0 1) (Fin 1) (Fin (- 1))
                        * if_then_else GT (tmp 2) (Fin 0) (ssqrt (tmp 2)) (Fin 0))
                       (t * (R 1 0 - R 0 1))
          in Some (theta, mk3 res0 res1 res2))"

definition log3 :: "scalar \<Rightarrow> mat3 \<Rightarrow> (scalar \<times> vec3) option" where
  \<comment> \<open>Modelled from the spec: the entry point \<^verbatim>\<open>log3(R, theta)\<close> is not among the
      sources; it returns the rotation vector and the angle of \<^verbatim>\<open>log3_impl::run\<close>.\<close>
  "log3 prec R = log3_impl_run prec R"

text \<open>
  \<^verbatim>\<open>Jlog3_impl::run\<close>. The output matrix is assigned as a whole by the first
  statement, so the model returns it.
\<close>

definition Jlog3_impl_run :: "scalar \<Rightarrow> scalar \<Rightarrow> vec3 \<Rightarrow> mat3" where
  "Jlog3_impl_run prec theta logv =
    (let st = ssin theta; ct = scos theta;
         st_1mct = st / (Fin 1 - ct);
         alpha = if_then_else LT theta prec
                   (Fin 1 / Fin 12 + theta * theta / Fin 720)
                   (Fin 1 / (theta * theta) - st_1mct / (Fin 2 * theta));
         diag_value = if_then_else LT theta prec
                        (Fin (1 / 2) * (Fin 2 - theta * theta / Fin 6))
                        (Fin (1 / 2) * (theta * st_1mct));
         Jlog = outer3 (scale3 alpha logv) logv;
         Jlog = add_diag diag_value Jlog
     in addSkew (scale3 (Fin (1 / 2)) logv) Jlog)"

definition Jlog3 :: "scalar \<Rightarrow> scalar \<Rightarrow> vec3 \<Rightarrow> mat3" where
  \<comment> \<open>Modelled from the spec: the entry point \<^verbatim>\<open>Jlog3(theta, log, Jlog)\<close> is not among
      the sources; it fills \<open>Jlog\<close> as \<^verbatim>\<open>Jlog3_impl::run\<close> does.\<close>
  "Jlog3 prec theta logv = Jlog3_impl_run prec theta logv"

section \<open>The rigid-motion logarithm\<close>

definition log6_impl_run :: "scalar \<Rightarrow> SE3 \<Rightarrow> Motion option" where
  "log6_impl_run prec M =
    (let R = rotation M; p = translation M
     in case log3 prec R of
          None \<Rightarrow> None
        | Some (theta, w) \<Rightarrow>
            let t2 = theta * theta;
                st = ssin theta; ct = scos theta;
                alpha = if_then_else LT theta prec
                          (Fin 1 - t2 / Fin 12 - t2 * t2 / Fin 720)
                          (theta * st / (Fin 2 * (Fin 1 - ct)));
                beta = if_then_else LT theta prec
                         (Fin 1 / Fin 12 + t2 / Fin 720)
                         (Fin 1 / t2 - st / (Fin 2 * theta * (Fin 1 - ct)))
            in Some \<lparr> linear_part =
                        vadd3 (vsub3 (scale3 alpha p) (scale3 (Fin (1 / 2)) (cross3 w p)))
                              (scale3 (beta * dot3 w p) w),
                      angular_part = w \<rparr>)"

text \<open>
  \<^verbatim>\<open>Jlog6_impl::run\<close> writes into the caller's 6x6 matrix through four block views:
  \<open>A\<close> at (0,0), \<open>B\<close> at (0,3), \<open>C\<close> at (3,0) and \<open>D\<close> at (3,3). Each statement of the source
  is one update of the matrix \<open>val\<close> (\<^verbatim>\<open>value\<close> in the source).
\<close>

definition Jlog6_impl_run :: "scalar \<Rightarrow> SE3 \<Rightarrow> mat6 \<Rightarrow> mat6 option" where
  "Jlog6_impl_run prec M val =
    (let R = rotation M; p = translation M
     in case log3 prec R of
          None \<Rightarrow> None
        | Some (t, w) \<Rightarrow>
            let val = set_block33 0 0 (Jlog3 prec t w) val;
                val = set_block33 3 3 (block33 0 0 val) val;
                t2 = t * t;
                tinv = Fin 1 / t;
                t2inv = tinv * tinv;
                st = ssin t; ct = scos t;
                inv_2_2ct = Fin 1 / (Fin 2 * (Fin 1 - ct));
                beta = if_then_else LT t prec
                         (Fin 1 / Fin 12 + t2 / Fin 720)
                         (t2inv - st * tinv * inv_2_2ct);
                beta_dot_over_theta = if_then_else LT t prec
                         (Fin 1 / Fin 360)
                         (- Fin 2 * t2inv * t2inv + (Fin 1 + st * tinv) * t2inv * inv_2_2ct);
                wTp = dot3 w p;
                v3_tmp = vsub3 (scale3 (beta_dot_over_theta * wTp) w)
                               (scale3 (t2 * beta_dot_over_theta + Fin 2 * beta) p);
                val = set_block33 3 0 (outer3 v3_tmp w) val;
                val = set_block33 3 0 (madd3 (block33 3 0 val) (outer3 (scale3 beta w) p)) val;
                val = set_block33 3 0 (add_diag (wTp * beta) (block33 3 0 val)) val;
                val = set_block33 3 0 (addSkew (scale3 (Fin (1 / 2)) p) (block33 3 0 val)) val;
                val = set_block33 0 3 (mmul3 (block33 3 0 val) (block33 0 0 val)) val;
                val = set_block33 3 0 (\<lambda>i j. Fin 0) val
            in Some val)"

section \<open>Extraction of a joint Jacobian\<close>

text \<open>
  \<^verbatim>\<open>include/pinocchio/algorithm/jacobian.hpp\<close> declares the extraction into a caller's
  matrix and defines the overload that returns a fresh matrix. The kinematic tree and the
  data snapshot are the collaborators' types; only the fields the extraction reads are
  modelled: per joint its parent, the index of its first velocity column and the number
  of its columns; the global Jacobian \<open>J\<close> and the world placements \<open>oMi\<close>.
\<close>

datatype ReferenceFrame = WORLD | LOCAL | LOCAL_WORLD_ALIGNED

record JointModel =
  idx_v :: nat
  joint_nv :: nat

record Model =
  nv :: nat
  joints :: "JointModel list"
  parents :: "nat list"

record Data =
  J :: Matrix6x
  oMi :: "SE3 list"

definition col :: "nat \<Rightarrow> (nat \<Rightarrow> nat \<Rightarrow> 'a) \<Rightarrow> nat \<Rightarrow> 'a" where
  "col c M = (\<lambda>i. M i c)"

definition set_col :: "nat \<Rightarrow> (nat \<Rightarrow> 'a) \<Rightarrow> (nat \<Rightarrow> nat \<Rightarrow> 'a) \<Rightarrow> nat \<Rightarrow> nat \<Rightarrow> 'a" where
  "set_col c v M = (\<lambda>i j. if j = c then v i else M i j)"

definition joint_columns :: "Model \<Rightarrow> nat \<Rightarrow> nat list" where
  "joint_columns model j =
     (if j < length (joints model)
      then [idx_v (joints model ! j) ..< idx_v (joints model ! j) + joint_nv (joints model ! j)]
      else [])"

fun ancestor_chain :: "nat list \<Rightarrow> nat \<Rightarrow> nat \<Rightarrow> nat list" where
  \<comment> \<open>Modelled from the spec: the joints from \<open>j\<close> up to the root, \<open>j\<close> included and
      the universe (index 0, which has no column) excluded, following the parent
      indices; the first argument after the parents bounds the number of steps.\<close>
  "ancestor_chain ps 0 j = []"
| "ancestor_chain ps (Suc n) j =
     (if j = 0 \<or> length ps \<le> j then [] else j # ancestor_chain ps n (ps ! j))"

definition getJointJacobian ::
  "(ReferenceFrame \<Rightarrow> SE3 \<Rightarrow> vec6 \<Rightarrow> vec6) \<Rightarrow> Model \<Rightarrow> Data \<Rightarrow> nat \<Rightarrow> ReferenceFrame
     \<Rightarrow> Matrix6x \<Rightarrow> Matrix6x option" where
  \<comment> \<open>Modelled from the spec: the body of the extraction into the caller's matrix is not
      among the sources (only its declaration is). It copies every column that belongs to
      an ancestor of \<open>joint_id\<close>, itself included, from the global Jacobian, re-expressed
      in the requested frame, and writes no other column. In the \<open>WORLD\<close> frame the
      columns are copied as stored; the re-expression in the two local frames is the
      parameter \<open>reexpress\<close>. A joint index out of range is a violated precondition,
      \<open>None\<close>.\<close>
  "getJointJacobian reexpress model data joint_id reference_frame Jout =
     (if length (joints model) \<le> joint_id \<or> length (oMi data) \<le> joint_id then None
      else
        let oMjoint = oMi data ! joint_id;
            chain = ancestor_chain (parents model) (length (parents model)) joint_id
        in Some (fold (\<lambda>c Jo. set_col c
                                (case reference_frame of
                                   WORLD \<Rightarrow> col c (J data)
                                 | _ \<Rightarrow> reexpress reference_frame oMjoint (col c (J data)))
                                Jo)
                      (concat (map (joint_columns model) chain))
                      Jout))"

definition getJointJacobian_ret ::
  "(ReferenceFrame \<Rightarrow> SE3 \<Rightarrow> vec6 \<Rightarrow> vec6) \<Rightarrow> Model \<Rightarrow> Data \<Rightarrow> nat \<Rightarrow> ReferenceFrame
     \<Rightarrow> Matrix6x option" where
  \<comment> \<open>the overload of \<^verbatim>\<open>getJointJacobian\<close> that returns the matrix: a zero matrix
      handed to the extraction\<close>
  "getJointJacobian_ret reexpress model data joint_id reference_frame =
     (let res = (\<lambda>i j. Fin 0)
      in getJointJacobian reexpress model data joint_id reference_frame res)"

inductive ancestor :: "nat list \<Rightarrow> nat \<Rightarrow> nat \<Rightarrow> bool" for ps :: "nat list" where
  ancestor_self: "ancestor ps j j"
| ancestor_parent: "j \<noteq> 0 \<Longrightarrow> j < length ps \<Longrightarrow> ancestor ps a (ps ! j) \<Longrightarrow> ancestor ps a j"

code_pred ancestor .

section \<open>The results over the reals\<close>

text \<open>
  The statements below compare the code, run on finite scalars, with these functions of
  real numbers: the formulas of the specification, with the coefficients that the
  specification leaves unnamed written out over the reals. \<open>e\<close> is the small-angle
  threshold.
\<close>

definition spec_theta :: "(nat \<Rightarrow> nat \<Rightarrow> real) \<Rightarrow> real" where
  "spec_theta R =
     (let t = trace3 R
      in if 3 \<le> t then 0 else if t \<le> - 1 then pi else arccos ((t - 1) / 2))"

definition spec_cphi :: "(nat \<Rightarrow> nat \<Rightarrow> real) \<Rightarrow> real" where
  \<comment> \<open>\<open>cos \<phi>\<close>, from the trace clamped to \<open>[-1, 3]\<close>\<close>
  "spec_cphi R = - (max (min (trace3 R) 3) (- 1) - 1) / 2"

definition vee :: "(nat \<Rightarrow> nat \<Rightarrow> real) \<Rightarrow> nat \<Rightarrow> real" where
  \<comment> \<open>\<open>(R - R\<^sup>T)\<^sub>v\<^sub>e\<^sub>e\<close>\<close>
  "vee R = mk3 (R 2 1 - R 1 2) (R 0 2 - R 2 0) (R 1 0 - R 0 1)"

definition sign_factor :: "real \<Rightarrow> real \<Rightarrow> real" where
  "sign_factor a b = (if a > b then 1 else - 1)"

definition spec_log3_regular :: "real \<Rightarrow> (nat \<Rightarrow> nat \<Rightarrow> real) \<Rightarrow> nat \<Rightarrow> real" where
  "spec_log3_regular e R =
     (let \<theta> = spec_theta R
      in scale3 (if e < \<theta> then \<theta> / (2 * sin \<theta>) else 1 / 2) (vee R))"

definition claimed_near_pi :: "(real \<Rightarrow> real) \<Rightarrow> (nat \<Rightarrow> nat \<Rightarrow> real) \<Rightarrow> nat \<Rightarrow> real" where
  \<comment> \<open>the near-\<open>\<pi>\<close> recovery as the specification words it, for a sign function \<open>sg\<close>\<close>
  "claimed_near_pi sg R =
     (let c = - (trace3 R - 1) / 2
      in mk3 (sg (R 2 1 - R 1 2) * sqrt (max 0 ((R 0 0 + c) / (1 + c))))
             (sg (R 0 2 - R 2 0) * sqrt (max 0 ((R 1 1 + c) / (1 + c))))
             (sg (R 1 0 - R 0 1) * sqrt (max 0 ((R 2 2 + c) / (1 + c)))))"

definition spec_log3_near_pi :: "(nat \<Rightarrow> nat \<Rightarrow> real) \<Rightarrow> nat \<Rightarrow> real" where
  \<comment> \<open>the near-\<open>\<pi>\<close> recovery with the factor \<open>\<theta>\<close> and the strict sign factor\<close>
  "spec_log3_near_pi R =
     (let \<theta> = spec_theta R; c = spec_cphi R
      in mk3 (sign_factor (R 2 1) (R 1 2) * (\<theta> * sqrt (max 0 ((R 0 0 + c) / (1 + c)))))
             (sign_factor (R 0 2) (R 2 0) * (\<theta> * sqrt (max 0 ((R 1 1 + c) / (1 + c)))))
             (sign_factor (R 1 0) (R 0 1) * (\<theta> * sqrt (max 0 ((R 2 2 + c) / (1 + c))))))"

definition spec_log3 :: "real \<Rightarrow> (nat \<Rightarrow> nat \<Rightarrow> real) \<Rightarrow> nat \<Rightarrow> real" where
  "spec_log3 e R =
     (if pi - 1 / 100 \<le> spec_theta R then spec_log3_near_pi R else spec_log3_regular e R)"

definition rot_pi :: "nat \<Rightarrow> nat \<Rightarrow> nat \<Rightarrow> real" where
  \<comment> \<open>the rotation by the angle \<open>\<pi>\<close> about the coordinate axis \<open>k\<close>\<close>
  "rot_pi k = (\<lambda>i j. if i = j then (if i = k then 1 else - 1) else 0)"

definition spec_log6_alpha :: "real \<Rightarrow> real \<Rightarrow> real" where
  "spec_log6_alpha e \<theta> =
     (if \<theta> < e then 1 - \<theta>\<^sup>2 / 12 - \<theta>\<^sup>2 * \<theta>\<^sup>2 / 720
      else \<theta> * sin \<theta> / (2 * (1 - cos \<theta>)))"

definition spec_log6_beta :: "real \<Rightarrow> real \<Rightarrow> real" where
  "spec_log6_beta e \<theta> =
     (if \<theta> < e then 1 / 12 + \<theta>\<^sup>2 / 720
      else 1 / \<theta>\<^sup>2 - sin \<theta> / (2 * \<theta> * (1 - cos \<theta>)))"

definition spec_log6_linear ::
  "real \<Rightarrow> (nat \<Rightarrow> nat \<Rightarrow> real) \<Rightarrow> (nat \<Rightarrow> real) \<Rightarrow> nat \<Rightarrow> real" where
  "spec_log6_linear e R p =
     (let \<theta> = spec_theta R; w = spec_log3 e R
      in vadd3 (vsub3 (scale3 (spec_log6_alpha e \<theta>) p) (scale3 (1 / 2) (cross3 w p)))
               (scale3 (spec_log6_beta e \<theta> * dot3 w p) w))"

definition skew :: "(nat \<Rightarrow> real) \<Rightarrow> nat \<Rightarrow> nat \<Rightarrow> real" where
  "skew v = addSkew v (\<lambda>i j. 0)"

definition spec_Jlog3_alpha :: "real \<Rightarrow> real \<Rightarrow> real" where
  "spec_Jlog3_alpha e \<theta> =
     (if \<theta> < e then 1 / 12 + \<theta>\<^sup>2 / 720
      else 1 / \<theta>\<^sup>2 - (sin \<theta> / (1 - cos \<theta>)) / (2 * \<theta>))"

definition spec_Jlog3_beta :: "real \<Rightarrow> real \<Rightarrow> real" where
  "spec_Jlog3_beta e \<theta> =
     (if \<theta> < e then (1 / 2) * (2 - \<theta>\<^sup>2 / 6)
      else (1 / 2) * (\<theta> * (sin \<theta> / (1 - cos \<theta>))))"

definition spec_Jlog3 :: "real \<Rightarrow> real \<Rightarrow> (nat \<Rightarrow> real) \<Rightarrow> nat \<Rightarrow> nat \<Rightarrow> real" where
  \<comment> \<open>\<open>\<alpha> r r\<^sup>T + diag(\<beta>) + skew(r) / 2\<close>\<close>
  "spec_Jlog3 e \<theta> r =
     (\<lambda>i j. spec_Jlog3_alpha e \<theta> * r i * r j
             + (if i = j then spec_Jlog3_beta e \<theta> else 0)
             + (1 / 2) * skew r i j)"

definition Jlog6_beta :: "scalar \<Rightarrow> scalar \<Rightarrow> scalar" where
  "Jlog6_beta prec t =
     if_then_else LT t prec
       (Fin 1 / Fin 12 + t * t / Fin 720)
       ((Fin 1 / t) * (Fin 1 / t) - ssin t * (Fin 1 / t) * (Fin 1 / (Fin 2 * (Fin 1 - scos t))))"

definition Jlog6_beta_dot_over_theta :: "scalar \<Rightarrow> scalar \<Rightarrow> scalar" where
  "Jlog6_beta_dot_over_theta prec t =
     if_then_else LT t prec
       (Fin 1 / Fin 360)
       (- Fin 2 * ((Fin 1 / t) * (Fin 1 / t)) * ((Fin 1 / t) * (Fin 1 / t))
        + (Fin 1 + ssin t * (Fin 1 / t)) * ((Fin 1 / t) * (Fin 1 / t))
          * (Fin 1 / (Fin 2 * (Fin 1 - scos t))))"

definition Jlog6_C :: "scalar \<Rightarrow> scalar \<Rightarrow> vec3 \<Rightarrow> vec3 \<Rightarrow> mat3" where
  \<comment> \<open>the intermediate bottom-left block: built from the pair \<open>\<beta>\<close>, \<open>\<beta>'/\<theta>\<close>, with
      the skew term of the translation \<open>p\<close>\<close>
  "Jlog6_C prec t w p =
     (let b = Jlog6_beta prec t; bd = Jlog6_beta_dot_over_theta prec t;
          wTp = dot3 w p;
          v3 = vsub3 (scale3 (bd * wTp) w) (scale3 (t * t * bd + Fin 2 * b) p)
      in addSkew (scale3 (Fin (1 / 2)) p)
           (add_diag (wTp * b) (madd3 (outer3 v3 w) (outer3 (scale3 b w) p))))"

section \<open>Auxiliary definitions\<close>

definition log3_comp :: "scalar \<Rightarrow> real \<Rightarrow> real \<Rightarrow> real \<Rightarrow> real \<Rightarrow> real \<Rightarrow> scalar" where
  \<comment> \<open>one component of the result of \<open>log3_impl_run\<close> on finite entries: \<open>d\<close> the
      diagonal entry, \<open>a\<close> and \<open>b\<close> the pair of entries off the diagonal\<close>
  "log3_comp prec \<theta> c d a b =
     if_then_else GE (Fin \<theta>) (Fin pi - Fin (1 / 100))
       (if_then_else GT (Fin a) (Fin b) (Fin 1) (Fin (- 1))
        * if_then_else GT ((Fin d + Fin c) * (Fin \<theta> * Fin \<theta> / (Fin 1 + Fin c))) (Fin 0)
            (ssqrt ((Fin d + Fin c) * (Fin \<theta> * Fin \<theta> / (Fin 1 + Fin c)))) (Fin 0))
       (if_then_else GT (Fin \<theta>) prec (Fin \<theta> / ssin (Fin \<theta>)) (Fin 1) / Fin 2 * (Fin a - Fin b))"

definition unit3 :: "nat \<Rightarrow> nat \<Rightarrow> real" where
  \<comment> \<open>the coordinate axis \<open>k\<close>\<close>
  "unit3 k = mk3 (if k = 0 then 1 else 0) (if k = 1 then 1 else 0) (if k = 2 then 1 else 0)"

definition rot_z_quarter :: "nat \<Rightarrow> nat \<Rightarrow> real" where
  \<comment> \<open>the rotation by \<open>\<pi>/2\<close> about the third axis\<close>
  "rot_z_quarter = (\<lambda>i j. if i = 0 \<and> j = 1 then - 1 else if i = 1 \<and> j = 0 then 1
                          else if i = 2 \<and> j = 2 then 1 else 0)"

definition two_leaf_model :: Model where
  "two_leaf_model =
     \<lparr> nv = 2,
       joints = [\<lparr> idx_v = 0, joint_nv = 0 \<rparr>, \<lparr> idx_v = 0, joint_nv = 1 \<rparr>,
                 \<lparr> idx_v = 1, joint_nv = 1 \<rparr>],
       parents = [0, 0, 0] \<rparr>"

definition two_leaf_data :: Data where
  "two_leaf_data =
     (let Id = \<lparr> rotation = \<lambda>i j. Fin (if i = j then 1 else 0), translation = \<lambda>i. Fin 0 \<rparr>
      in \<lparr> J = (\<lambda>i j. Fin 1), oMi = [Id, Id, Id] \<rparr>)"

section \<open>log3 on finite matrices\<close>

lemma arccos_half_bounds:
  fixes t :: real
  assumes "- 1 < t" "t < 3"
  shows "0 \<le> arccos ((t - 1) / 2)" "arccos ((t - 1) / 2) \<le> pi"
proof -
  have "- 1 \<le> (t - 1) / 2" "(t - 1) / 2 \<le> 1" using assms by simp_all
  then show "0 \<le> arccos ((t - 1) / 2)" "arccos ((t - 1) / 2) \<le> pi"
    by (simp_all add: arccos_lbound arccos_ubound)
qed

lemma spec_theta_range: "0 \<le> spec_theta R" "spec_theta R \<le> pi"
  using arccos_half_bounds [of "trace3 R"]
  by (auto simp: spec_theta_def Let_def)

lemma clamp_fin: "smax (smin (Fin t) (Fin 3)) (Fin (- 1)) = Fin (max (min t 3) (- 1))"
  by (simp add: smin_def smax_def max_def min_def)

lemma theta_fin:
  "if_then_else GE (Fin t) (Fin 3) (Fin 0)
     (if_then_else LE (Fin t) (Fin (- 1)) (Fin pi) (sacos ((Fin t - Fin 1) / Fin 2)))
   = Fin (if 3 \<le> t then 0 else if t \<le> - 1 then pi else arccos ((t - 1) / 2))"
  by (simp add: if_then_else_def)

lemma trace3_fin: "trace3 (\<lambda>i j. Fin (R i j)) = Fin (trace3 R)"
  by (simp add: trace3_def)

lemma cphi_fin:
  "- (Fin (max (min t 3) (- 1)) - Fin 1) / Fin 2 = Fin (- (max (min t 3) (- 1) - 1) / 2)"
  by simp

text \<open>
  On a matrix of finite entries the assertion holds, the angle is \<open>spec_theta\<close>, and
  each component is \<open>log3_comp\<close> of its diagonal entry and its pair of entries.
\<close>

lemma log3_unfold:
  "log3_impl_run prec (\<lambda>i j. Fin (R i j)) =
     Some (Fin (spec_theta R),
           mk3 (log3_comp prec (spec_theta R) (spec_cphi R) (R 0 0) (R 2 1) (R 1 2))
               (log3_comp prec (spec_theta R) (spec_cphi R) (R 1 1) (R 0 2) (R 2 0))
               (log3_comp prec (spec_theta R) (spec_cphi R) (R 2 2) (R 1 0) (R 0 1)))"
  unfolding log3_impl_run_def trace3_fin Let_def theta_fin clamp_fin cphi_fin
    log3_comp_def spec_theta_def spec_cphi_def
  by simp

lemma one_plus_cphi_pos:
  assumes "0 < spec_theta R"
  shows "0 < 1 + spec_cphi R"
proof -
  have "trace3 R < 3" using assms by (auto simp: spec_theta_def Let_def split: if_splits)
  then have "max (min (trace3 R) 3) (- 1) < 3" by simp
  moreover have "0 < 1 + - (m - 1) / 2" if "m < 3" for m :: real
    using that by (simp add: field_simps)
  ultimately show ?thesis unfolding spec_cphi_def by blast
qed

lemma near_pi_magnitude:
  fixes \<theta> x :: real
  assumes "0 \<le> \<theta>"
  shows "(if 0 < x * (\<theta> * \<theta>) then sqrt (x * (\<theta> * \<theta>)) else 0) = \<theta> * sqrt (max 0 x)"
proof (cases "0 < x * (\<theta> * \<theta>)")
  case True
  then have "0 < x" using assms by (simp add: zero_less_mult_iff)
  then show ?thesis using True assms by (simp add: real_sqrt_mult max_def)
next
  case False
  then have "\<theta> = 0 \<or> x \<le> 0" by (auto simp: zero_less_mult_iff not_less)
  then show ?thesis using False by (auto simp: max_def)
qed

lemma log3_comp_near_pi:
  assumes "pi - 1 / 100 \<le> \<theta>" and "0 < 1 + c"
  shows "log3_comp prec \<theta> c d a b
         = Fin (sign_factor a b * (\<theta> * sqrt (max 0 ((d + c) / (1 + c)))))"
proof -
  have th: "0 \<le> \<theta>" using assms(1) pi_ge_two by linarith
  have nz: "1 + c \<noteq> 0" using assms(2) by simp
  have tmp: "(Fin d + Fin c) * (Fin \<theta> * Fin \<theta> / (Fin 1 + Fin c))
             = Fin ((d + c) / (1 + c) * (\<theta> * \<theta>))"
    using nz by simp
  have sel: "if_then_else GT (Fin X) (Fin 0) (ssqrt (Fin X)) (Fin 0)
             = Fin (if 0 < X then sqrt X else 0)" for X
    by (simp add: if_then_else_def)
  have sg: "if_then_else GT (Fin a) (Fin b) (Fin 1) (Fin (- 1)) = Fin (sign_factor a b)"
    by (simp add: if_then_else_def sign_factor_def)
  have ge: "if_then_else GE (Fin \<theta>) (Fin pi - Fin (1 / 100)) X Y = X" for X Y
    using assms(1) by (simp add: if_then_else_def)
  show ?thesis
    unfolding log3_comp_def tmp sel sg ge near_pi_magnitude [OF th]
    by simp
qed

lemma log3_comp_regular:
  assumes "\<theta> < pi - 1 / 100" and "0 \<le> \<theta>" and "0 \<le> e"
  shows "log3_comp (Fin e) \<theta> c d a b
         = Fin ((if e < \<theta> then \<theta> / (2 * sin \<theta>) else 1 / 2) * (a - b))"
proof (cases "e < \<theta>")
  case True
  then have "0 < \<theta>" "\<theta> < pi" using assms by linarith+
  then have "sin \<theta> \<noteq> 0" using sin_gt_zero [of \<theta>] by simp
  then show ?thesis using True assms(1) by (simp add: log3_comp_def if_then_else_def)
next
  case False
  then show ?thesis using assms(1) by (simp add: log3_comp_def if_then_else_def)
qed

lemma mk3_fin: "mk3 (Fin a) (Fin b) (Fin c) = (\<lambda>i. Fin (mk3 a b c i))"
  by (rule ext) (simp add: mk3_def)

lemma scale3_mk3: "scale3 (k::real) (mk3 a b c) = mk3 (k * a) (k * b) (k * c)"
  by (rule ext) (simp add: scale3_def mk3_def)

lemma log3_near_pi:
  assumes "pi - 1 / 100 \<le> spec_theta R"
  shows "log3_impl_run prec (\<lambda>i j. Fin (R i j))
         = Some (Fin (spec_theta R), \<lambda>i. Fin (spec_log3_near_pi R i))"
proof -
  have "0 < spec_theta R" using assms pi_ge_two by linarith
  then have pos: "0 < 1 + spec_cphi R" by (rule one_plus_cphi_pos)
  show ?thesis
    unfolding log3_unfold log3_comp_near_pi [OF assms pos] mk3_fin
    by (simp add: spec_log3_near_pi_def Let_def)
qed

lemma log3_regular:
  assumes "spec_theta R < pi - 1 / 100" and "0 \<le> e"
  shows "log3_impl_run (Fin e) (\<lambda>i j. Fin (R i j))
         = Some (Fin (spec_theta R), \<lambda>i. Fin (spec_log3_regular e R i))"
proof -
  note c = log3_comp_regular [OF assms(1) spec_theta_range(1) assms(2)]
  show ?thesis
    unfolding log3_unfold c mk3_fin spec_log3_regular_def Let_def vee_def scale3_mk3
    by simp
qed

lemma log3_fin:
  assumes "0 \<le> e"
  shows "log3_impl_run (Fin e) (\<lambda>i j. Fin (R i j))
         = Some (Fin (spec_theta R), \<lambda>i. Fin (spec_log3 e R i))"
  using log3_near_pi [of R "Fin e"] log3_regular [OF _ assms, of R]
  by (cases "pi - 1 / 100 \<le> spec_theta R") (simp_all add: spec_log3_def)

subsection \<open>Rotations by \<open>\<pi>\<close> about a coordinate axis\<close>

lemma spec_theta_rot_pi: "k < 3 \<Longrightarrow> spec_theta (rot_pi k) = pi"
  by (auto simp: spec_theta_def rot_pi_def trace3_def)

lemma spec_cphi_rot_pi: "k < 3 \<Longrightarrow> spec_cphi (rot_pi k) = 1"
  by (auto simp: spec_cphi_def rot_pi_def trace3_def)

lemma spec_near_pi_rot_pi:
  assumes "k < 3"
  shows "spec_log3_near_pi (rot_pi k) = scale3 (- pi) (unit3 k)"
proof -
  have "k = 0 \<or> k = 1 \<or> k = 2" using assms by linarith
  then show ?thesis
    unfolding spec_log3_near_pi_def spec_theta_rot_pi [OF assms] spec_cphi_rot_pi [OF assms]
      Let_def unit3_def scale3_mk3
    by (auto simp: rot_pi_def sign_factor_def)
qed

lemma log3_rot_pi:
  assumes "k < 3"
  shows "log3_impl_run prec (\<lambda>i j. Fin (rot_pi k i j))
         = Some (Fin pi, \<lambda>i. Fin (scale3 (- pi) (unit3 k) i))"
proof -
  have "pi - 1 / 100 \<le> spec_theta (rot_pi k)"
    by (simp add: spec_theta_rot_pi [OF assms])
  from log3_near_pi [OF this, of prec] show ?thesis
    by (simp add: spec_theta_rot_pi [OF assms] spec_near_pi_rot_pi [OF assms])
qed

lemma spec_theta_rot_z_quarter: "spec_theta rot_z_quarter = pi / 2"
  by (simp add: spec_theta_def trace3_def rot_z_quarter_def)

section \<open>The claims on log3\<close>

text \<open>
  C1. For every matrix \<open>R\<close> of finite entries, a rotation in particular, the angle that
  \<open>log3\<close> returns is 0 when the trace is at least 3, \<open>\<pi>\<close> when it is at most -1, and
  the arc cosine of \<open>(tr R - 1) / 2\<close> otherwise; it lies in \<open>[0, \<pi>]\<close>.
\<close>

theorem log3_theta_cases:
  "map_option fst (log3_impl_run prec (\<lambda>i j. Fin (R i j)))
     = Some (Fin (if 3 \<le> trace3 R then 0
                  else if trace3 R \<le> - 1 then pi
                  else arccos ((trace3 R - 1) / 2)))
   \<and> 0 \<le> spec_theta R \<and> spec_theta R \<le> pi
   \<and> map_option fst (log3_impl_run prec (\<lambda>i j. Fin (R i j))) = Some (Fin (spec_theta R))"
  using spec_theta_range [of R]
  by (simp add: log3_unfold) (simp add: spec_theta_def)

theorem log3_theta_cases_witness:
  "map_option fst (log3_impl_run (Fin (1 / 10000)) (\<lambda>i j. Fin (rot_pi 0 i j))) = Some (Fin pi)"
  using log3_theta_cases [of "Fin (1 / 10000)" "rot_pi 0"]
  by (simp add: trace3_def rot_pi_def)

text \<open>
  C2. For a threshold \<open>e \<ge> 0\<close> and every matrix of finite entries whose angle \<open>\<theta>\<close> is
  below \<open>\<pi> - 1/100\<close>, \<open>log3\<close> returns \<open>(\<theta> / (2 sin \<theta>)) (R - R\<^sup>T)\<^sub>v\<^sub>e\<^sub>e\<close> when
  \<open>\<theta>\<close> is above the threshold, and \<open>(1/2) (R - R\<^sup>T)\<^sub>v\<^sub>e\<^sub>e\<close> when it is at or below it.
\<close>

theorem log3_regular_formula:
  assumes "0 \<le> e" and "spec_theta R < pi - 1 / 100"
  shows "log3_impl_run (Fin e) (\<lambda>i j. Fin (R i j))
         = Some (Fin (spec_theta R),
                 \<lambda>i. Fin (scale3 (if e < spec_theta R
                                   then spec_theta R / (2 * sin (spec_theta R))
                                   else 1 / 2) (vee R) i))"
  using log3_regular [OF assms(2) assms(1)]
  by (simp add: spec_log3_regular_def Let_def)

theorem log3_regular_formula_witness:
  "log3_impl_run (Fin (1 / 10000)) (\<lambda>i j. Fin (rot_z_quarter i j))
     = Some (Fin (pi / 2), \<lambda>i. Fin (mk3 0 0 (pi / 2) i))"
proof -
  have a: "(0::real) \<le> 1 / 10000" by simp
  have b: "spec_theta rot_z_quarter < pi - 1 / 100"
    using pi_ge_two by (simp add: spec_theta_rot_z_quarter)
  have c: "(1::real) / 10000 < pi / 2" using pi_ge_two by simp
  have v: "vee rot_z_quarter = mk3 0 0 2"
    by (simp add: vee_def rot_z_quarter_def)
  show ?thesis
    using log3_regular_formula [OF a b] c
    by (simp add: spec_theta_rot_z_quarter v scale3_mk3)
qed

text \<open>
  C3, as stated, fails: for the rotation by \<open>\<pi>\<close> about the first axis the angle is
  \<open>\<pi>\<close>, the first component of the result is \<open>-\<pi>\<close>, and the stated formula gives -1
  with the strict sign factor and 0 with the sign function.
\<close>

theorem log3_near_pi_claim_counterexample:
  "map_option (\<lambda>(\<theta>, r). (\<theta>, r 0)) (log3_impl_run (Fin (1 / 10000)) (\<lambda>i j. Fin (rot_pi 0 i j)))
     = Some (Fin pi, Fin (- pi))
   \<and> claimed_near_pi (\<lambda>x. if 0 < x then 1 else - 1) (rot_pi 0) 0 = - 1
   \<and> claimed_near_pi sgn (rot_pi 0) 0 = 0
   \<and> - pi \<noteq> (- 1 :: real) \<and> - pi \<noteq> (0 :: real)"
proof -
  have "(0::nat) < 3" by simp
  from log3_rot_pi [OF this, of "Fin (1 / 10000)"]
  have "map_option (\<lambda>(\<theta>, r). (\<theta>, r 0)) (log3_impl_run (Fin (1 / 10000)) (\<lambda>i j. Fin (rot_pi 0 i j)))
     = Some (Fin pi, Fin (- pi))"
    by (simp add: scale3_def unit3_def mk3_def)
  moreover have "claimed_near_pi (\<lambda>x. if 0 < x then 1 else - 1) (rot_pi 0) 0 = - 1"
    by (simp add: claimed_near_pi_def rot_pi_def trace3_def mk3_def)
  moreover have "claimed_near_pi sgn (rot_pi 0) 0 = 0"
    by (simp add: claimed_near_pi_def rot_pi_def trace3_def mk3_def)
  moreover have "- pi \<noteq> (- 1 :: real)" "- pi \<noteq> (0 :: real)"
    using pi_ge_two by simp_all
  ultimately show ?thesis by blast
qed

text \<open>
  C3, amended. For every matrix of finite entries whose angle \<open>\<theta>\<close> is at least
  \<open>\<pi> - 1/100\<close>, each component of the result of \<open>log3\<close> is the sign factor (+1 when
  \<open>R[jk] > R[kj]\<close>, -1 otherwise) times \<open>\<theta>\<close> times
  \<open>sqrt (max 0 ((R[ii] + cos \<phi>) / (1 + cos \<phi>)))\<close>, where \<open>cos \<phi> = -(t - 1) / 2\<close> for
  the trace \<open>t\<close> clamped to \<open>[-1, 3]\<close>.
\<close>

theorem log3_near_pi_formula:
  assumes "pi - 1 / 100 \<le> spec_theta R"
  shows "log3_impl_run prec (\<lambda>i j. Fin (R i j))
         = Some (Fin (spec_theta R), \<lambda>i. Fin (spec_log3_near_pi R i))"
  using assms by (rule log3_near_pi)

theorem log3_near_pi_formula_witness:
  "log3_impl_run (Fin (1 / 10000)) (\<lambda>i j. Fin (rot_pi 2 i j))
     = Some (Fin pi, \<lambda>i. Fin (mk3 0 0 (- pi) i))"
proof -
  have k: "(2::nat) < 3" by simp
  have a: "pi - 1 / 100 \<le> spec_theta (rot_pi 2)"
    by (simp add: spec_theta_rot_pi [OF k])
  show ?thesis
    using log3_near_pi_formula [OF a, of "Fin (1 / 10000)"]
    by (simp add: spec_theta_rot_pi [OF k] spec_near_pi_rot_pi [OF k] unit3_def scale3_mk3)
qed

text \<open>
  C4, as stated, fails in its last part: for the rotation by \<open>\<pi>\<close> about the first axis
  the result of \<open>log3\<close> is \<open>(-\<pi>, 0, 0)\<close>, which is not the closed form \<open>\<pi>\<close> times
  the axis.
\<close>

theorem log3_axis_pi_claim_counterexample:
  "map_option (\<lambda>(\<theta>, r). [r 0, r 1, r 2])
      (log3_impl_run (Fin (1 / 10000)) (\<lambda>i j. Fin (rot_pi 0 i j)))
     = Some [Fin (- pi), Fin 0, Fin 0]
   \<and> [Fin (- pi), Fin 0, Fin 0]
       \<noteq> [Fin (scale3 pi (unit3 0) 0), Fin (scale3 pi (unit3 0) 1), Fin (scale3 pi (unit3 0) 2)]"
proof -
  have "(0::nat) < 3" by simp
  from log3_rot_pi [OF this, of "Fin (1 / 10000)"]
  have "map_option (\<lambda>(\<theta>, r). [r 0, r 1, r 2])
      (log3_impl_run (Fin (1 / 10000)) (\<lambda>i j. Fin (rot_pi 0 i j)))
     = Some [Fin (- pi), Fin 0, Fin 0]"
    by (simp add: scale3_def unit3_def mk3_def)
  moreover have "- pi \<noteq> pi" using pi_gt_zero by linarith
  ultimately show ?thesis by (simp add: scale3_def unit3_def mk3_def)
qed

text \<open>
  C4, amended. For every matrix of finite entries, an orthonormal rotation in
  particular, the assertion on \<open>theta\<close> does not fail and \<open>theta\<close> is a finite number;
  for the rotation by \<open>\<pi>\<close> about a coordinate axis every entry of the result is finite,
  the angle is \<open>\<pi>\<close> and the rotation vector is \<open>-\<pi>\<close> times the axis.
\<close>

theorem log3_no_nan:
  "(\<exists>\<theta> r. log3_impl_run prec (\<lambda>i j. Fin (R i j)) = Some (Fin \<theta>, r))
   \<and> (\<forall>k<3. log3_impl_run prec (\<lambda>i j. Fin (rot_pi k i j))
              = Some (Fin pi, \<lambda>i. Fin (scale3 (- pi) (unit3 k) i)))"
proof (intro conjI allI impI)
  show "\<exists>\<theta> r. log3_impl_run prec (\<lambda>i j. Fin (R i j)) = Some (Fin \<theta>, r)"
    by (simp add: log3_unfold)
next
  fix k :: nat
  assume "k < 3"
  then show "log3_impl_run prec (\<lambda>i j. Fin (rot_pi k i j))
             = Some (Fin pi, \<lambda>i. Fin (scale3 (- pi) (unit3 k) i))"
    by (rule log3_rot_pi)
qed

theorem log3_no_nan_witness:
  "(\<exists>\<theta> r. log3_impl_run (Fin (1 / 10000)) (\<lambda>i j. Fin (rot_z_quarter i j)) = Some (Fin \<theta>, r))
   \<and> log3_impl_run (Fin (1 / 10000)) (\<lambda>i j. Fin (rot_pi 2 i j))
       = Some (Fin pi, \<lambda>i. Fin (mk3 0 0 (- pi) i))"
  using log3_no_nan [of "Fin (1 / 10000)" rot_z_quarter]
  by (simp add: unit3_def scale3_mk3)

text \<open>
  C10. In the near-\<open>\<pi>\<close> branch the sign factor of each component is +1 when
  \<open>R[jk] > R[kj]\<close> and -1 otherwise, the tie included; for the rotation by exactly
  \<open>\<pi>\<close> about a coordinate axis the three factors are -1 and \<open>log3\<close> returns \<open>-\<pi>\<close>
  times the axis.
\<close>

theorem log3_sign_tie:
  "(pi - 1 / 100 \<le> spec_theta R \<longrightarrow>
      log3_impl_run prec (\<lambda>i j. Fin (R i j))
        = Some (Fin (spec_theta R),
                mk3 (Fin ((if R 2 1 > R 1 2 then 1 else - 1)
                          * (spec_theta R * sqrt (max 0 ((R 0 0 + spec_cphi R) / (1 + spec_cphi R))))))
                    (Fin ((if R 0 2 > R 2 0 then 1 else - 1)
                          * (spec_theta R * sqrt (max 0 ((R 1 1 + spec_cphi R) / (1 + spec_cphi R))))))
                    (Fin ((if R 1 0 > R 0 1 then 1 else - 1)
                          * (spec_theta R * sqrt (max 0 ((R 2 2 + spec_cphi R) / (1 + spec_cphi R))))))))
   \<and> (k < 3 \<longrightarrow>
        sign_factor (rot_pi k 2 1) (rot_pi k 1 2) = - 1
      \<and> sign_factor (rot_pi k 0 2) (rot_pi k 2 0) = - 1
      \<and> sign_factor (rot_pi k 1 0) (rot_pi k 0 1) = - 1
      \<and> log3_impl_run prec (\<lambda>i j. Fin (rot_pi k i j))
          = Some (Fin pi, \<lambda>i. Fin (- pi * unit3 k i)))"
proof (intro conjI impI)
  assume a: "pi - 1 / 100 \<le> spec_theta R"
  show "log3_impl_run prec (\<lambda>i j. Fin (R i j))
        = Some (Fin (spec_theta R),
                mk3 (Fin ((if R 2 1 > R 1 2 then 1 else - 1)
                          * (spec_theta R * sqrt (max 0 ((R 0 0 + spec_cphi R) / (1 + spec_cphi R))))))
                    (Fin ((if R 0 2 > R 2 0 then 1 else - 1)
                          * (spec_theta R * sqrt (max 0 ((R 1 1 + spec_cphi R) / (1 + spec_cphi R))))))
                    (Fin ((if R 1 0 > R 0 1 then 1 else - 1)
                          * (spec_theta R * sqrt (max 0 ((R 2 2 + spec_cphi R) / (1 + spec_cphi R)))))))"
    unfolding log3_near_pi [OF a] mk3_fin
    by (simp add: spec_log3_near_pi_def Let_def sign_factor_def)
next
  assume k: "k < 3"
  show "log3_impl_run prec (\<lambda>i j. Fin (rot_pi k i j))
          = Some (Fin pi, \<lambda>i. Fin (- pi * unit3 k i))"
    using log3_rot_pi [OF k, of prec] by (simp add: scale3_def)
qed (simp_all add: sign_factor_def rot_pi_def)

theorem log3_sign_tie_witness:
  "log3_impl_run (Fin (1 / 10000)) (\<lambda>i j. Fin (rot_pi 0 i j))
     = Some (Fin pi, mk3 (Fin (- pi)) (Fin 0) (Fin 0))
   \<and> sign_factor (rot_pi 0 2 1) (rot_pi 0 1 2) = - 1"
proof -
  have k: "(0::nat) < 3" by simp
  have a: "pi - 1 / 100 \<le> spec_theta (rot_pi 0)"
    by (simp add: spec_theta_rot_pi [OF k])
  have c: "spec_cphi (rot_pi 0) = 1" by (rule spec_cphi_rot_pi [OF k])
  have t: "spec_theta (rot_pi 0) = pi" by (rule spec_theta_rot_pi [OF k])
  from log3_sign_tie [of "rot_pi 0" "Fin (1 / 10000)" 0] a k
  show ?thesis
    unfolding c t by (simp add: rot_pi_def)
qed

section \<open>log6 and Jlog3 on finite inputs\<close>

lemma one_minus_cos_nz:
  fixes \<theta> :: real
  assumes "0 < \<theta>" and "\<theta> \<le> pi"
  shows "1 - cos \<theta> \<noteq> 0"
proof -
  have "cos \<theta> < cos 0 \<longleftrightarrow> 0 < \<theta>"
    using assms pi_gt_zero by (intro cos_mono_less_eq) simp_all
  then show ?thesis using assms(1) by simp
qed

lemma log6_alpha_fin:
  assumes "0 < e" and "0 \<le> \<theta>" and "\<theta> \<le> pi"
  shows "if_then_else LT (Fin \<theta>) (Fin e)
           (Fin 1 - Fin \<theta> * Fin \<theta> / Fin 12 - Fin \<theta> * Fin \<theta> * (Fin \<theta> * Fin \<theta>) / Fin 720)
           (Fin \<theta> * ssin (Fin \<theta>) / (Fin 2 * (Fin 1 - scos (Fin \<theta>))))
         = Fin (spec_log6_alpha e \<theta>)"
proof (cases "\<theta> < e")
  case True
  then show ?thesis
    by (simp add: if_then_else_def spec_log6_alpha_def power2_eq_square)
next
  case False
  then have "0 < \<theta>" using assms(1) by linarith
  then have "1 - cos \<theta> \<noteq> 0" using assms(3) by (rule one_minus_cos_nz)
  then show ?thesis using False
    by (simp add: if_then_else_def spec_log6_alpha_def)
qed

lemma log6_beta_fin:
  assumes "0 < e" and "0 \<le> \<theta>" and "\<theta> \<le> pi"
  shows "if_then_else LT (Fin \<theta>) (Fin e)
           (Fin 1 / Fin 12 + Fin \<theta> * Fin \<theta> / Fin 720)
           (Fin 1 / (Fin \<theta> * Fin \<theta>) - ssin (Fin \<theta>) / (Fin 2 * Fin \<theta> * (Fin 1 - scos (Fin \<theta>))))
         = Fin (spec_log6_beta e \<theta>)"
proof (cases "\<theta> < e")
  case True
  then show ?thesis
    by (simp add: if_then_else_def spec_log6_beta_def power2_eq_square)
next
  case False
  then have pos: "0 < \<theta>" using assms(1) by linarith
  then have "1 - cos \<theta> \<noteq> 0" using assms(3) by (rule one_minus_cos_nz)
  then show ?thesis using False pos
    by (simp add: if_then_else_def spec_log6_beta_def power2_eq_square)
qed

lemma scale3_fin: "scale3 (Fin a) (\<lambda>i. Fin (v i)) = (\<lambda>i. Fin (scale3 a v i))"
  by (simp add: scale3_def)

lemma vadd3_fin: "vadd3 (\<lambda>i. Fin (u i)) (\<lambda>i. Fin (v i)) = (\<lambda>i. Fin (vadd3 u v i))"
  by (simp add: vadd3_def)

lemma vsub3_fin: "vsub3 (\<lambda>i. Fin (u i)) (\<lambda>i. Fin (v i)) = (\<lambda>i. Fin (vsub3 u v i))"
  by (simp add: vsub3_def)

lemma dot3_fin: "dot3 (\<lambda>i. Fin (u i)) (\<lambda>i. Fin (v i)) = Fin (dot3 u v)"
  by (simp add: dot3_def)

lemma cross3_fin: "cross3 (\<lambda>i. Fin (u i)) (\<lambda>i. Fin (v i)) = (\<lambda>i. Fin (cross3 u v i))"
  by (simp add: cross3_def mk3_fin)

lemma times_fin: "Fin a * Fin b = Fin (a * b)"
  by simp

text \<open>
  C5. For a threshold \<open>e > 0\<close> and every rigid transform \<open>(R, p)\<close> of finite entries,
  \<open>log6\<close> returns the twist whose angular part is \<open>w = log3 R\<close> and whose linear part is
  \<open>\<alpha> p - (w \<times> p) / 2 + \<beta> (w \<cdot> p) w\<close>; \<open>\<alpha>\<close> and \<open>\<beta>\<close> are the closed forms when
  \<open>\<theta>\<close> is not below the threshold and the Taylor values when it is.
\<close>

theorem log6_formula:
  assumes "0 < e"
  shows "log3 (Fin e) (\<lambda>i j. Fin (R i j))
           = Some (Fin (spec_theta R), \<lambda>i. Fin (spec_log3 e R i))
       \<and> log6_impl_run (Fin e) \<lparr> rotation = \<lambda>i j. Fin (R i j), translation = \<lambda>i. Fin (p i) \<rparr>
           = Some \<lparr> linear_part = \<lambda>i. Fin (spec_log6_linear e R p i),
                    angular_part = \<lambda>i. Fin (spec_log3 e R i) \<rparr>"
proof -
  have e0: "0 \<le> e" using assms by simp
  have l3: "log3 (Fin e) (\<lambda>i j. Fin (R i j))
              = Some (Fin (spec_theta R), \<lambda>i. Fin (spec_log3 e R i))"
    unfolding log3_def by (rule log3_fin [OF e0])
  note a = log6_alpha_fin [OF assms spec_theta_range]
  note b = log6_beta_fin [OF assms spec_theta_range]
  have "log6_impl_run (Fin e) \<lparr> rotation = \<lambda>i j. Fin (R i j), translation = \<lambda>i. Fin (p i) \<rparr>
           = Some \<lparr> linear_part = \<lambda>i. Fin (spec_log6_linear e R p i),
                    angular_part = \<lambda>i. Fin (spec_log3 e R i) \<rparr>"
    unfolding log6_impl_run_def Let_def SE3.simps l3 option.case prod.case a b
    unfolding dot3_fin times_fin cross3_fin scale3_fin vsub3_fin vadd3_fin
      spec_log6_linear_def Let_def
    by (rule refl)
  with l3 show ?thesis by (rule conjI)
qed


lemma spec_theta_id: "spec_theta (\<lambda>i j. if i = j then 1 else 0) = 0"
  by (simp add: spec_theta_def trace3_def)

lemma spec_log3_id: "0 < e \<Longrightarrow> spec_log3 e (\<lambda>i j. if i = j then 1 else 0) = (\<lambda>i. 0)"
  using pi_ge_two
  by (simp add: spec_log3_def spec_theta_id spec_log3_regular_def vee_def scale3_mk3)
     (auto simp: mk3_def)

theorem log6_formula_witness:
  "log6_impl_run (Fin (1 / 10000))
      \<lparr> rotation = \<lambda>i j. Fin (if i = j then 1 else 0), translation = \<lambda>i. Fin (mk3 1 2 3 i) \<rparr>
     = Some \<lparr> linear_part = \<lambda>i. Fin (mk3 1 2 3 i), angular_part = \<lambda>i. Fin 0 \<rparr>"
proof -
  have e: "(0::real) < 1 / 10000" by simp
  have lin: "spec_log6_linear (1 / 10000) (\<lambda>i j. if i = j then 1 else 0) (mk3 1 2 3) = mk3 1 2 3"
    unfolding spec_log6_linear_def Let_def spec_log3_id [OF e] spec_theta_id
    by (rule ext)
       (simp add: vadd3_def vsub3_def scale3_def cross3_def dot3_def spec_log6_alpha_def mk3_def)
  show ?thesis
    using log6_formula [OF e, of "\<lambda>i j. if i = j then 1 else 0" "mk3 1 2 3"]
    unfolding lin spec_log3_id [OF e] by simp
qed

lemma Jlog3_alpha_fin:
  assumes "\<theta> < e \<or> (\<theta> \<noteq> 0 \<and> cos \<theta> \<noteq> 1)"
  shows "if_then_else LT (Fin \<theta>) (Fin e)
           (Fin 1 / Fin 12 + Fin \<theta> * Fin \<theta> / Fin 720)
           (Fin 1 / (Fin \<theta> * Fin \<theta>) - ssin (Fin \<theta>) / (Fin 1 - scos (Fin \<theta>)) / (Fin 2 * Fin \<theta>))
         = Fin (spec_Jlog3_alpha e \<theta>)"
  using assms
  by (cases "\<theta> < e") (simp_all add: if_then_else_def spec_Jlog3_alpha_def power2_eq_square)

lemma Jlog3_beta_fin:
  assumes "\<theta> < e \<or> (\<theta> \<noteq> 0 \<and> cos \<theta> \<noteq> 1)"
  shows "if_then_else LT (Fin \<theta>) (Fin e)
           (Fin (1 / 2) * (Fin 2 - Fin \<theta> * Fin \<theta> / Fin 6))
           (Fin (1 / 2) * (Fin \<theta> * (ssin (Fin \<theta>) / (Fin 1 - scos (Fin \<theta>)))))
         = Fin (spec_Jlog3_beta e \<theta>)"
  using assms
  by (cases "\<theta> < e") (simp_all add: if_then_else_def spec_Jlog3_beta_def power2_eq_square)

text \<open>
  C6. For finite \<open>\<theta>\<close> and \<open>r\<close>, \<open>Jlog3\<close> returns \<open>\<alpha> r r\<^sup>T + diag(\<beta>) + skew(r) / 2\<close>,
  with the Taylor values of \<open>\<alpha>\<close> and \<open>\<beta>\<close> below the threshold, where nothing is
  divided by \<open>\<theta>\<^sup>2\<close>, and the closed forms otherwise (there \<open>\<theta>\<close> and \<open>1 - cos \<theta>\<close>
  are the divisors, and must not be zero).
\<close>

theorem Jlog3_formula:
  assumes "\<theta> < e \<or> (\<theta> \<noteq> 0 \<and> cos \<theta> \<noteq> 1)"
  shows "Jlog3_impl_run (Fin e) (Fin \<theta>) (\<lambda>i. Fin (r i)) = (\<lambda>i j. Fin (spec_Jlog3 e \<theta> r i j))"
  unfolding Jlog3_impl_run_def Let_def Jlog3_alpha_fin [OF assms] Jlog3_beta_fin [OF assms]
  by (intro ext)
     (simp add: addSkew_def add_diag_def outer3_def scale3_def spec_Jlog3_def skew_def)

theorem Jlog3_formula_witness:
  "Jlog3_impl_run (Fin (1 / 10000)) (Fin 0) (\<lambda>i. Fin 0) = (\<lambda>i j. Fin (if i = j then 1 else 0))"
proof -
  have h: "(0::real) < 1 / 10000 \<or> ((0::real) \<noteq> 0 \<and> cos (0::real) \<noteq> 1)" by simp
  have "spec_Jlog3 (1 / 10000) 0 (\<lambda>i. 0) = (\<lambda>i j. if i = j then 1 else 0)"
    by (intro ext)
       (simp add: spec_Jlog3_def spec_Jlog3_alpha_def spec_Jlog3_beta_def skew_def addSkew_def)
  then show ?thesis
    using Jlog3_formula [OF h, of "\<lambda>i. 0"] by simp
qed

section \<open>The blocks of Jlog6\<close>

lemma lt3_cases: "i < 3 \<Longrightarrow> i = 0 \<or> i = 1 \<or> i = (2::nat)"
  by linarith

lemma Jlog6_A:
  assumes "log3 prec (rotation M) = Some (t, w)" and "i < 3" and "j < 3"
  shows "block33 0 0 (the (Jlog6_impl_run prec M val)) i j = Jlog3 prec t w i j"
  using assms
  by (simp add: Jlog6_impl_run_def Let_def block33_def set_block33_def)

lemma Jlog6_D:
  assumes "log3 prec (rotation M) = Some (t, w)" and "i < 3" and "j < 3"
  shows "block33 3 3 (the (Jlog6_impl_run prec M val)) i j = Jlog3 prec t w i j"
  using assms
  by (simp add: Jlog6_impl_run_def Let_def block33_def set_block33_def)

lemma Jlog6_Cz:
  assumes "log3 prec (rotation M) = Some (t, w)" and "i < 3" and "j < 3"
  shows "block33 3 0 (the (Jlog6_impl_run prec M val)) i j = Fin 0"
  using assms
  by (simp add: Jlog6_impl_run_def Let_def block33_def set_block33_def)


lemma Jlog6_B:
  assumes "log3 prec (rotation M) = Some (t, w)" and "i < 3" and "j < 3"
  shows "block33 0 3 (the (Jlog6_impl_run prec M val)) i j
         = mmul3 (Jlog6_C prec t w (translation M)) (Jlog3 prec t w) i j"
proof -
  have "i = 0 \<or> i = 1 \<or> i = 2" using assms(2) by (rule lt3_cases)
  then show ?thesis
    using assms
    by (auto simp add: Jlog6_impl_run_def Let_def block33_def set_block33_def mmul3_def
        Jlog6_C_def Jlog6_beta_def Jlog6_beta_dot_over_theta_def
        addSkew_def add_diag_def madd3_def)
qed

lemma Jlog6_Some:
  assumes "log3 prec (rotation M) = Some (t, w)"
  shows "\<exists>Jl. Jlog6_impl_run prec M val = Some Jl"
  using assms by (simp add: Jlog6_impl_run_def Let_def)

text \<open>
  C7. For every rigid transform \<open>M\<close> whose rotation has finite entries, and whatever the
  output matrix held before, \<open>Jlog6\<close> returns a matrix whose blocks \<open>A\<close> (top left) and
  \<open>D\<close> (bottom right) are \<open>Jlog3 \<theta> w\<close> for \<open>(\<theta>, w) = log3 R\<close>, whose block \<open>B\<close> (top
  right) is the product of the intermediate bottom-left block \<open>Jlog6_C\<close> with \<open>A\<close>, and
  whose bottom-left block is zero: it is cleared after \<open>B\<close> is formed.
\<close>

theorem Jlog6_blocks:
  assumes "rotation M = (\<lambda>i j. Fin (R i j))"
  shows "\<exists>t w Jl. log3 prec (rotation M) = Some (t, w) \<and> t = Fin (spec_theta R)
           \<and> Jlog6_impl_run prec M val = Some Jl
           \<and> (\<forall>i<3. \<forall>j<3.
                  block33 0 0 Jl i j = Jlog3 prec t w i j
                \<and> block33 3 3 Jl i j = Jlog3 prec t w i j
                \<and> block33 0 3 Jl i j
                    = mmul3 (Jlog6_C prec t w (translation M)) (Jlog3 prec t w) i j
                \<and> block33 3 0 Jl i j = Fin 0)"
proof -
  obtain w where l3: "log3 prec (rotation M) = Some (Fin (spec_theta R), w)"
    unfolding log3_def assms log3_unfold by blast
  obtain Jl where Jl: "Jlog6_impl_run prec M val = Some Jl"
    using Jlog6_Some [OF l3] by blast
  then have the: "the (Jlog6_impl_run prec M val) = Jl" by simp
  have "\<forall>i<3. \<forall>j<3.
                  block33 0 0 Jl i j = Jlog3 prec (Fin (spec_theta R)) w i j
                \<and> block33 3 3 Jl i j = Jlog3 prec (Fin (spec_theta R)) w i j
                \<and> block33 0 3 Jl i j
                    = mmul3 (Jlog6_C prec (Fin (spec_theta R)) w (translation M))
                        (Jlog3 prec (Fin (spec_theta R)) w) i j
                \<and> block33 3 0 Jl i j = Fin 0"
    using Jlog6_A [OF l3, of _ _ val] Jlog6_D [OF l3, of _ _ val]
      Jlog6_B [OF l3, of _ _ val] Jlog6_Cz [OF l3, of _ _ val]
    unfolding the by blast
  with l3 Jl show ?thesis by blast
qed

theorem Jlog6_blocks_witness:
  "\<exists>Jl. Jlog6_impl_run (Fin (1 / 10000))
           \<lparr> rotation = \<lambda>i j. Fin (if i = j then 1 else 0), translation = \<lambda>i. Fin (mk3 1 2 3 i) \<rparr>
           (\<lambda>i j. Fin 7) = Some Jl
        \<and> Jl 3 0 = Fin 0 \<and> Jl 5 2 = Fin 0 \<and> Jl 3 3 = Jl 0 0 \<and> Jl 4 5 = Jl 1 2"
proof -
  let ?M = "\<lparr> rotation = \<lambda>i j. Fin (if i = j then 1 else 0), translation = \<lambda>i. Fin (mk3 1 2 3 i) \<rparr>"
  have r: "rotation ?M = (\<lambda>i j. Fin (if i = j then 1 else 0))" by simp
  from Jlog6_blocks [OF r, of "Fin (1 / 10000)" "\<lambda>i j. Fin 7"]
  obtain t w Jl where
    Jl: "Jlog6_impl_run (Fin (1 / 10000)) ?M (\<lambda>i j. Fin 7) = Some Jl" and
    b: "\<forall>i<3. \<forall>j<3.
            block33 0 0 Jl i j = Jlog3 (Fin (1 / 10000)) t w i j
          \<and> block33 3 3 Jl i j = Jlog3 (Fin (1 / 10000)) t w i j
          \<and> block33 0 3 Jl i j
              = mmul3 (Jlog6_C (Fin (1 / 10000)) t w (translation ?M))
                  (Jlog3 (Fin (1 / 10000)) t w) i j
          \<and> block33 3 0 Jl i j = Fin 0"
    by blast
  have "block33 3 0 Jl 0 0 = Fin 0" "block33 3 0 Jl 2 2 = Fin 0"
    "block33 3 3 Jl 0 0 = block33 0 0 Jl 0 0" "block33 3 3 Jl 1 2 = block33 0 0 Jl 1 2"
    using b by simp_all
  then have "Jl 3 0 = Fin 0 \<and> Jl 5 2 = Fin 0 \<and> Jl 3 3 = Jl 0 0 \<and> Jl 4 5 = Jl 1 2"
    by (simp add: block33_def)
  with Jl show ?thesis by blast
qed

section \<open>Extraction writes the columns of the ancestors only\<close>

lemma fold_set_col_other:
  "c \<notin> set cs \<Longrightarrow> fold (\<lambda>c Jo. set_col c (f c) Jo) cs Jout i c = Jout i c"
  by (induction cs arbitrary: Jout) (simp_all add: set_col_def)

lemma ancestor_chain_sound:
  "a \<in> set (ancestor_chain ps n j) \<Longrightarrow> ancestor ps a j"
proof (induction n arbitrary: j)
  case 0
  then show ?case by simp
next
  case (Suc n)
  then show ?case
    by (auto split: if_splits intro: ancestor_self ancestor_parent)
qed

text \<open>
  In a tree whose parent indices decrease towards the root, as many steps as there are
  joints reach every ancestor: the bound on the steps cuts no chain short.
\<close>

lemma ancestor_chain_complete:
  assumes tree: "\<forall>k<length ps. k \<noteq> 0 \<longrightarrow> ps ! k < k"
    and "ancestor ps a j" and "a \<noteq> 0" and "j < length ps" and "j \<le> n"
  shows "a \<in> set (ancestor_chain ps n j)"
  using assms(2-)
proof (induction arbitrary: n rule: ancestor.induct)
  case (ancestor_self j)
  then obtain m where "n = Suc m" by (cases n) auto
  then show ?case using ancestor_self by simp
next
  case (ancestor_parent j a)
  then obtain m where n: "n = Suc m" by (cases n) auto
  have lt: "ps ! j < j" using tree ancestor_parent.hyps by simp
  then have "ps ! j < length ps" "ps ! j \<le> m"
    using ancestor_parent.prems n by simp_all
  then have "a \<in> set (ancestor_chain ps m (ps ! j))"
    using ancestor_parent.IH ancestor_parent.prems by simp
  then show ?case using n ancestor_parent.hyps by simp
qed

text \<open>
  C8. For every model, data snapshot, valid joint index and reference frame, and every
  column \<open>c\<close> that belongs to no joint on the ancestor chain of the joint, the extraction
  leaves column \<open>c\<close> of the caller's matrix as it was; the overload that returns the
  matrix starts from zeros, so column \<open>c\<close> of its result is zero.
\<close>

theorem getJointJacobian_frame:
  assumes "joint_id < length (joints model)" and "joint_id < length (oMi data)"
    and "\<forall>a. ancestor (parents model) a joint_id \<longrightarrow> c \<notin> set (joint_columns model a)"
  shows "\<exists>Jres Jz. getJointJacobian reexpress model data joint_id rf Jout = Some Jres
           \<and> Jres i c = Jout i c
           \<and> getJointJacobian_ret reexpress model data joint_id rf = Some Jz
           \<and> Jz i c = Fin 0"
proof -
  let ?chain = "ancestor_chain (parents model) (length (parents model)) joint_id"
  have "c \<notin> set (concat (map (joint_columns model) ?chain))"
    using assms(3) ancestor_chain_sound [of _ "parents model" "length (parents model)" joint_id]
    by auto
  then show ?thesis
    using assms(1,2)
    by (simp add: getJointJacobian_def getJointJacobian_ret_def Let_def fold_set_col_other)
qed


lemma ancestor_of_universe: "ancestor ps a 0 \<Longrightarrow> a = 0"
  by (erule ancestor.cases) simp_all

lemma ancestor_two_leaf_1:
  assumes "ancestor (parents two_leaf_model) a 1"
  shows "a = 1 \<or> a = 0"
  using assms
  by (rule ancestor.cases) (auto simp: two_leaf_model_def dest: ancestor_of_universe)

theorem getJointJacobian_frame_witness:
  "\<exists>Jres Jz. getJointJacobian (\<lambda>rf M v. v) two_leaf_model two_leaf_data 1 WORLD (\<lambda>i j. Fin 7)
                = Some Jres
           \<and> Jres 0 1 = Fin 7
           \<and> getJointJacobian_ret (\<lambda>rf M v. v) two_leaf_model two_leaf_data 1 WORLD = Some Jz
           \<and> Jz 0 1 = Fin 0"
proof -
  have a: "1 < length (joints two_leaf_model)" by (simp add: two_leaf_model_def)
  have b: "1 < length (oMi two_leaf_data)" by (simp add: two_leaf_data_def Let_def)
  have c: "\<forall>a. ancestor (parents two_leaf_model) a 1 \<longrightarrow> 1 \<notin> set (joint_columns two_leaf_model a)"
  proof (intro allI impI)
    fix a assume "ancestor (parents two_leaf_model) a 1"
    then have "a = 1 \<or> a = 0" by (rule ancestor_two_leaf_1)
    then show "1 \<notin> set (joint_columns two_leaf_model a)"
      by (auto simp: joint_columns_def two_leaf_model_def)
  qed
  show ?thesis
    using getJointJacobian_frame [OF a b c, of "\<lambda>rf M v. v" WORLD "\<lambda>i j. Fin 7" 0]
    by simp
qed

lemma getJointJacobian_two_leaf:
  "map_option (\<lambda>Jres. [Jres 0 0, Jres 0 1])
     (getJointJacobian (\<lambda>rf M v. v) two_leaf_model two_leaf_data 1 WORLD (\<lambda>i j. Fin 7))
   = Some [Fin 1, Fin 7]"
  by (simp add: getJointJacobian_def two_leaf_model_def two_leaf_data_def Let_def
      joint_columns_def set_col_def col_def)

end
